theory Spec2Isabelle
  imports Complex_Main "HOL-Library.List_Lexorder"
begin

section \<open>Conventions of the embedding\<close>

text \<open>
  The development embeds \<^verbatim>\<open>src/core/dxf_processor.py\<close> and
  \<^verbatim>\<open>src/core/base_analyzer.py\<close>.

  \<^item> Python floats are modelled as \<^typ>\<open>real\<close>: arithmetic is exact, rounding is not
    modelled. A tolerance of the source (\<^verbatim>\<open>1e-9\<close>, \<^verbatim>\<open>1e-6\<close>) is the same
    rational number here.
  \<^item> An exception is a value of type \<open>error\<close>; a method that may raise returns
    \<open>error + 'a\<close>. A method that mutates an entity in place and may raise half way
    returns the entity as the exception leaves it, together with the exception.
  \<^item> The bounding-box routine of the DXF library (\<^verbatim>\<open>ezdxf.bbox.extents\<close>) is not
    part of the repository. It is a parameter \<open>bbox\<close> of every function that calls it.
  \<^item> Python strings with non-ASCII letters (file names) are lists of Unicode code
    points.
\<close>

datatype axis = X | Y

datatype error =
    NotLoaded              \<comment> \<open>RuntimeError: load() was not called\<close>
  | GeometryLoadError      \<comment> \<open>RuntimeError: no bounding extents\<close>
  | BadAxis                \<comment> \<open>ValueError: axis is neither X nor Y\<close>
  | DegenerateAxis         \<comment> \<open>ValueError: current size is 0\<close>
  | NoElasticRegion        \<comment> \<open>RuntimeError: no stretch zone for a non-zero delta\<close>
  | IndexError             \<comment> \<open>indexing an empty list\<close>
  | AttributeError         \<comment> \<open>reading an attribute that is absent\<close>
  | TransformError         \<comment> \<open>the library's \<^verbatim>\<open>entity.transform\<close> raised\<close>
  | UnparsableFilename     \<comment> \<open>ValueError of \<^verbatim>\<open>_extract_korpus_number\<close>\<close>
  | UnknownAssembly "nat list list"  \<comment> \<open>KeyError, with the known identifiers\<close>
  | InsufficientArcs       \<comment> \<open>ValueError: fewer than two arcs\<close>
  | NoBaseFiles            \<comment> \<open>FileNotFoundError: no reference file in the folder\<close>
  | NoReferencesFound      \<comment> \<open>RuntimeError: no reference file could be analysed\<close>

section \<open>Data model of the stretching engine\<close>

type_synonym vec3 = "real \<times> real \<times> real"

text \<open>
  A polyline vertex. The source reads \<^verbatim>\<open>vertex.dxf.x\<close>, \<^verbatim>\<open>vertex.dxf.y\<close> and
  \<^verbatim>\<open>vertex.dxf.bulge\<close> and itself expects an \<^verbatim>\<open>AttributeError\<close> there
  (\<^verbatim>\<open>_is_fixed_entity\<close>), so each attribute is optional: \<open>None\<close> is an attribute whose
  read raises.
\<close>

record vertex =
  vx :: "real option"
  vy :: "real option"
  bulge :: "real option"

text \<open>
  The entity kinds the source dispatches on. \<open>POLYLINE\<close> stands for both
  \<^verbatim>\<open>LWPOLYLINE\<close> and \<^verbatim>\<open>POLYLINE\<close>, which the source never tells apart. \<open>OTHER\<close> is any
  other kind: its DXF type name, whether the library can transform it, and a position
  standing for its opaque geometry.
\<close>

datatype entity =
    LINE vec3 vec3
  | POLYLINE "vertex list"
  | SPLINE "vec3 list" "vec3 list" "real list"
  | CIRCLE vec3 real
  | ARC vec3 real real real
  | POINT vec3
  | OTHER string bool vec3

fun dxftype :: "entity \<Rightarrow> string" where
  "dxftype (LINE s e) = ''LINE''"
| "dxftype (POLYLINE vs) = ''POLYLINE''"
| "dxftype (SPLINE cps fps ks) = ''SPLINE''"
| "dxftype (CIRCLE c r) = ''CIRCLE''"
| "dxftype (ARC c r a0 a1) = ''ARC''"
| "dxftype (POINT p) = ''POINT''"
| "dxftype (OTHER name ok p) = name"

record Extents =
  extmin_x :: real
  extmax_x :: real
  extmin_y :: real
  extmax_y :: real

definition size_x :: "Extents \<Rightarrow> real" where
  "size_x ext = extmax_x ext - extmin_x ext"

definition size_y :: "Extents \<Rightarrow> real" where
  "size_y ext = extmax_y ext - extmin_y ext"

text \<open>The library's \<^verbatim>\<open>bbox.extents\<close>: \<open>None\<close> when it raises or has no data.\<close>

type_synonym bbox_fn = "entity list \<Rightarrow> Extents option"

datatype zone_kind = STRETCH | FIXED

record Zone =
  start_old :: real
  end_old :: real
  zone_type :: zone_kind

definition length_zone :: "'a Zone_scheme \<Rightarrow> real" where
  "length_zone z = max 0 (end_old z - start_old z)"

record MappingSegment = Zone +
  start_new :: real
  end_new :: real

definition length_new :: "MappingSegment \<Rightarrow> real" where
  "length_new s = max 0 (end_new s - start_new s)"

record DxfInfo =
  length_x :: real
  width_y :: real
  entity_count :: nat
  min_x :: real
  max_x :: real
  min_y :: real
  max_y :: real

record DxfProcessor =
  last_doc :: "entity list option"
  extents :: "Extents option"
  zone_cache :: "axis \<Rightarrow> Zone list option"

definition init :: DxfProcessor where
  "init = \<lparr>last_doc = None, extents = None, zone_cache = (\<lambda>_. None)\<rparr>"

definition load :: "bbox_fn \<Rightarrow> entity list \<Rightarrow> error + (DxfInfo \<times> DxfProcessor)" where
  "load bbox msp =
     (case bbox msp of
        None \<Rightarrow> Inl GeometryLoadError
      | Some ext \<Rightarrow>
          Inr (\<lparr>length_x = size_x ext, width_y = size_y ext, entity_count = length msp,
                min_x = extmin_x ext, max_x = extmax_x ext,
                min_y = extmin_y ext, max_y = extmax_y ext\<rparr>,
               \<lparr>last_doc = Some msp, extents = Some ext, zone_cache = (\<lambda>_. None)\<rparr>))"

section \<open>Zone Segmenter\<close>

definition get_axis_bounds :: "Extents \<Rightarrow> axis \<Rightarrow> real \<times> real" where
  "get_axis_bounds ext ax =
     (if ax = X then (extmin_x ext, extmax_x ext) else (extmin_y ext, extmax_y ext))"

text \<open>
  \<^verbatim>\<open>any(abs(vertex.dxf.bulge) > 1e-6 for vertex in entity.vertices())\<close>: the scan stops
  at the first curved vertex; a vertex without the attribute raises.
\<close>

fun any_bulge :: "vertex list \<Rightarrow> error + bool" where
  "any_bulge [] = Inr False"
| "any_bulge (v # vs) =
     (case bulge v of
        None \<Rightarrow> Inl AttributeError
      | Some b \<Rightarrow> if \<bar>b\<bar> > 1 / 1000000 then Inr True else any_bulge vs)"

definition is_fixed_entity :: "entity \<Rightarrow> bool" where
  "is_fixed_entity e =
     (if dxftype e \<in> {''CIRCLE'', ''ARC'', ''ELLIPSE'', ''SPLINE''} then True
      else (case e of
              POLYLINE vs \<Rightarrow> (case any_bulge vs of Inr True \<Rightarrow> True | _ \<Rightarrow> False)
            | _ \<Rightarrow> False))"

definition entity_interval :: "bbox_fn \<Rightarrow> entity \<Rightarrow> axis \<Rightarrow> (real \<times> real) option" where
  "entity_interval bbox e ax =
     (case bbox [e] of
        None \<Rightarrow> None
      | Some ext \<Rightarrow>
          Some (if ax = X then extmin_x ext else extmin_y ext,
                if ax = X then extmax_x ext else extmax_y ext))"

text \<open>The first loop of \<^verbatim>\<open>_get_zones\<close>: the clipped, non-empty intervals of the fixed entities.\<close>

fun fixed_intervals ::
  "bbox_fn \<Rightarrow> axis \<Rightarrow> real \<Rightarrow> real \<Rightarrow> entity list \<Rightarrow> (real \<times> real) list" where
  "fixed_intervals bbox ax axis_min axis_max [] = []"
| "fixed_intervals bbox ax axis_min axis_max (e # es) =
     (if \<not> is_fixed_entity e then fixed_intervals bbox ax axis_min axis_max es
      else (case entity_interval bbox e ax of
              None \<Rightarrow> fixed_intervals bbox ax axis_min axis_max es
            | Some (lo, hi) \<Rightarrow>
                (let start = max axis_min lo; end = min axis_max hi
                 in if end > start
                    then (start, end) # fixed_intervals bbox ax axis_min axis_max es
                    else fixed_intervals bbox ax axis_min axis_max es)))"

text \<open>The second loop: \<open>merged\<close> is the list built so far, extended or widened at its end.\<close>

fun merge_intervals :: "(real \<times> real) list \<Rightarrow> (real \<times> real) list \<Rightarrow> (real \<times> real) list" where
  "merge_intervals merged [] = merged"
| "merge_intervals merged ((start, end) # rest) =
     (if merged = [] \<or> start > snd (last merged)
      then merge_intervals (merged @ [(start, end)]) rest
      else merge_intervals
             (butlast merged @ [(fst (last merged), max (snd (last merged)) end)]) rest)"

text \<open>The third loop: the zones appended for the merged intervals, and the final cursor.\<close>

fun walk_zones :: "real \<Rightarrow> (real \<times> real) list \<Rightarrow> Zone list \<times> real" where
  "walk_zones cursor [] = ([], cursor)"
| "walk_zones cursor ((start, end) # rest) =
     (let gap = (if start > cursor
                 then [\<lparr>start_old = cursor, end_old = start, zone_type = STRETCH\<rparr>] else []);
          (zs, c) = walk_zones (max cursor end) rest
      in (gap @ \<lparr>start_old = start, end_old = end, zone_type = FIXED\<rparr> # zs, c))"

definition compute_zones :: "bbox_fn \<Rightarrow> entity list \<Rightarrow> Extents \<Rightarrow> axis \<Rightarrow> Zone list" where
  "compute_zones bbox msp ext ax =
     (let (axis_min, axis_max0) = get_axis_bounds ext ax;
          axis_max = (if axis_max0 < axis_min then axis_min else axis_max0);
          intervals = fixed_intervals bbox ax axis_min axis_max msp;
          merged = merge_intervals [] (sort_key fst intervals);
          (zs, cursor) = walk_zones axis_min merged;
          zones = zs @ (if cursor < axis_max
                        then [\<lparr>start_old = cursor, end_old = axis_max, zone_type = STRETCH\<rparr>]
                        else [])
      in if zones = []
         then [\<lparr>start_old = axis_min, end_old = axis_max, zone_type = STRETCH\<rparr>]
         else zones)"

text \<open>
  \<^verbatim>\<open>_get_zones\<close> with its cache: a cached, non-empty list is returned as it is;
  otherwise the zones are computed and stored.
\<close>

definition get_zones ::
  "bbox_fn \<Rightarrow> entity list \<Rightarrow> Extents \<Rightarrow> (axis \<Rightarrow> Zone list option) \<Rightarrow> axis
     \<Rightarrow> Zone list \<times> (axis \<Rightarrow> Zone list option)" where
  "get_zones bbox msp ext cache ax =
     (case cache ax of
        Some (z # zs) \<Rightarrow> (z # zs, cache)
      | _ \<Rightarrow> (let zones = compute_zones bbox msp ext ax in (zones, cache(ax \<mapsto> zones))))"

section \<open>Mapping Builder\<close>

definition stretch_total :: "Zone list \<Rightarrow> real" where
  "stretch_total zones = sum_list (map length_zone (filter (\<lambda>z. zone_type z = STRETCH) zones))"

fun build_segments :: "real \<Rightarrow> real \<Rightarrow> real \<Rightarrow> Zone list \<Rightarrow> MappingSegment list" where
  "build_segments delta s_total current_new [] = []"
| "build_segments delta s_total current_new (zone # zones) =
     (let zone_len = length_zone zone;
          new_length = (if zone_type zone = STRETCH \<and> s_total > 0
                        then zone_len + delta * (zone_len / s_total)
                        else zone_len)
      in \<lparr>start_old = start_old zone, end_old = end_old zone, zone_type = zone_type zone,
           start_new = current_new, end_new = current_new + new_length\<rparr>
         # build_segments delta s_total (current_new + new_length) zones)"

definition build_mapping ::
  "Zone list \<Rightarrow> Extents \<Rightarrow> axis \<Rightarrow> real \<Rightarrow> error + MappingSegment list" where
  "build_mapping zones ext ax target_length =
     (let (axis_min, axis_max) = get_axis_bounds ext ax;
          current_length = axis_max - axis_min;
          delta = target_length - current_length;
          s_total = stretch_total zones
      in if \<bar>delta\<bar> > 1 / 1000000000 \<and> s_total \<le> 0 then Inl NoElasticRegion
         else Inr (build_segments delta s_total axis_min zones))"

section \<open>Coordinate Mapper\<close>

definition eps :: real where
  "eps = 1 / 1000000000"

fun scan_segments :: "real \<Rightarrow> MappingSegment list \<Rightarrow> real option" where
  "scan_segments v [] = None"
| "scan_segments v (segment # rest) =
     (if v < start_old segment - eps then scan_segments v rest
      else if v \<le> end_old segment + eps then
        (let old_len = length_zone segment
         in if old_len < eps then Some (v + (start_new segment - start_old segment))
            else Some (start_new segment + ((v - start_old segment) / old_len) * length_new segment))
      else scan_segments v rest)"

definition map_value :: "real \<Rightarrow> MappingSegment list \<Rightarrow> error + real" where
  "map_value v mapping =
     (case scan_segments v mapping of
        Some w \<Rightarrow> Inr w
      | None \<Rightarrow>
          if mapping = [] then Inl IndexError
          else Inr (v + (end_new (last mapping) - end_old (last mapping))))"

section \<open>Geometry Transformer\<close>

type_synonym mapping = "MappingSegment list"

text \<open>One point with its coordinate on the active axis remapped.\<close>

fun map_point3 :: "vec3 \<Rightarrow> mapping \<Rightarrow> axis \<Rightarrow> error + vec3" where
  "map_point3 (x, y, z) m ax =
     (if ax = X
      then (case map_value x m of Inl err \<Rightarrow> Inl err | Inr x' \<Rightarrow> Inr (x', y, z))
      else (case map_value y m of Inl err \<Rightarrow> Inl err | Inr y' \<Rightarrow> Inr (x, y', z)))"

text \<open>
  Each \<^verbatim>\<open>_map_*\<close> method returns the entity as the call leaves it and the exception
  it raised, if any.
\<close>

definition map_line :: "vec3 \<Rightarrow> vec3 \<Rightarrow> mapping \<Rightarrow> axis \<Rightarrow> entity \<times> error option" where
  "map_line start end m ax =
     (case map_point3 start m ax of
        Inl err \<Rightarrow> (LINE start end, Some err)
      | Inr new_start \<Rightarrow>
          (case map_point3 end m ax of
             Inl err \<Rightarrow> (LINE start end, Some err)
           | Inr new_end \<Rightarrow> (LINE new_start new_end, None)))"

text \<open>
  \<^verbatim>\<open>_map_polyline\<close> writes each vertex as it goes: when a vertex raises, the vertices
  before it have their new coordinate already.
\<close>

fun map_vertices :: "vertex list \<Rightarrow> mapping \<Rightarrow> axis \<Rightarrow> vertex list \<times> error option" where
  "map_vertices [] m ax = ([], None)"
| "map_vertices (v # vs) m ax =
     (case (if ax = X then vx v else vy v) of
        None \<Rightarrow> (v # vs, Some AttributeError)
      | Some c \<Rightarrow>
          (case map_value c m of
             Inl err \<Rightarrow> (v # vs, Some err)
           | Inr c' \<Rightarrow>
               (let v' = (if ax = X then v\<lparr>vx := Some c'\<rparr> else v\<lparr>vy := Some c'\<rparr>);
                    (vs', r) = map_vertices vs m ax
                in (v' # vs', r))))"

definition map_polyline :: "vertex list \<Rightarrow> mapping \<Rightarrow> axis \<Rightarrow> entity \<times> error option" where
  "map_polyline vs m ax = (let (vs', r) = map_vertices vs m ax in (POLYLINE vs', r))"

fun map_points :: "vec3 list \<Rightarrow> mapping \<Rightarrow> axis \<Rightarrow> error + vec3 list" where
  "map_points [] m ax = Inr []"
| "map_points (p # ps) m ax =
     (case map_point3 p m ax of
        Inl err \<Rightarrow> Inl err
      | Inr p' \<Rightarrow> (case map_points ps m ax of Inl err \<Rightarrow> Inl err | Inr ps' \<Rightarrow> Inr (p' # ps')))"

text \<open>
  \<^verbatim>\<open>_map_spline\<close> assigns the new control points before it turns to the fit points;
  the knot values are not touched.
\<close>

definition map_spline ::
  "vec3 list \<Rightarrow> vec3 list \<Rightarrow> real list \<Rightarrow> mapping \<Rightarrow> axis \<Rightarrow> entity \<times> error option" where
  "map_spline control_points fit_points knot_values m ax =
     (case map_points control_points m ax of
        Inl err \<Rightarrow> (SPLINE control_points fit_points knot_values, Some err)
      | Inr new_ctrl \<Rightarrow>
          if fit_points = [] then (SPLINE new_ctrl fit_points knot_values, None)
          else (case map_points fit_points m ax of
                  Inl err \<Rightarrow> (SPLINE new_ctrl fit_points knot_values, Some err)
                | Inr new_fit \<Rightarrow> (SPLINE new_ctrl new_fit knot_values, None)))"

text \<open>\<^verbatim>\<open>_map_circle_arc\<close>: the new centre, for a circle (\<open>None\<close>) or an arc (its angles).\<close>

definition map_circle_arc :: "entity \<Rightarrow> mapping \<Rightarrow> axis \<Rightarrow> entity \<times> error option" where
  "map_circle_arc e m ax =
     (case e of
        CIRCLE center r \<Rightarrow>
          (case map_point3 center m ax of
             Inl err \<Rightarrow> (e, Some err) | Inr new_center \<Rightarrow> (CIRCLE new_center r, None))
      | ARC center r a0 a1 \<Rightarrow>
          (case map_point3 center m ax of
             Inl err \<Rightarrow> (e, Some err) | Inr new_center \<Rightarrow> (ARC new_center r a0 a1, None))
      | _ \<Rightarrow> (e, Some AttributeError))"

definition map_point :: "vec3 \<Rightarrow> mapping \<Rightarrow> axis \<Rightarrow> entity \<times> error option" where
  "map_point location m ax =
     (case map_point3 location m ax of
        Inl err \<Rightarrow> (POINT location, Some err) | Inr p \<Rightarrow> (POINT p, None))"

text \<open>
  The library's \<^verbatim>\<open>entity.transform(Matrix44.translate(...))\<close> along one axis. It moves
  every position of the entity; for an opaque entity it may raise.
\<close>

fun shift3 :: "axis \<Rightarrow> real \<Rightarrow> vec3 \<Rightarrow> vec3" where
  "shift3 ax d (x, y, z) = (if ax = X then (x + d, y, z) else (x, y + d, z))"

definition shift_vertex :: "axis \<Rightarrow> real \<Rightarrow> vertex \<Rightarrow> vertex" where
  "shift_vertex ax d v =
     (if ax = X then v\<lparr>vx := map_option (\<lambda>c. c + d) (vx v)\<rparr>
      else v\<lparr>vy := map_option (\<lambda>c. c + d) (vy v)\<rparr>)"

fun translate :: "axis \<Rightarrow> real \<Rightarrow> entity \<Rightarrow> error + entity" where
  "translate ax d (LINE s e) = Inr (LINE (shift3 ax d s) (shift3 ax d e))"
| "translate ax d (POLYLINE vs) = Inr (POLYLINE (map (shift_vertex ax d) vs))"
| "translate ax d (SPLINE cps fps ks) =
     Inr (SPLINE (map (shift3 ax d) cps) (map (shift3 ax d) fps) ks)"
| "translate ax d (CIRCLE c r) = Inr (CIRCLE (shift3 ax d c) r)"
| "translate ax d (ARC c r a0 a1) = Inr (ARC (shift3 ax d c) r a0 a1)"
| "translate ax d (POINT p) = Inr (POINT (shift3 ax d p))"
| "translate ax d (OTHER name ok p) =
     (if ok then Inr (OTHER name ok (shift3 ax d p)) else Inl TransformError)"

text \<open>\<^verbatim>\<open>_map_generic\<close>: a translation by the first segment's offset, its failure swallowed.\<close>

definition map_generic :: "entity \<Rightarrow> mapping \<Rightarrow> axis \<Rightarrow> entity \<times> error option" where
  "map_generic e m ax =
     (case m of
        [] \<Rightarrow> (e, Some IndexError)
      | seg0 # _ \<Rightarrow>
          (let offset = start_new seg0 - start_old seg0
           in case translate ax offset e of Inl err \<Rightarrow> (e, None) | Inr e' \<Rightarrow> (e', None)))"

fun map_entity :: "entity \<Rightarrow> mapping \<Rightarrow> axis \<Rightarrow> entity \<times> error option" where
  "map_entity (LINE s e) m ax = map_line s e m ax"
| "map_entity (POLYLINE vs) m ax = map_polyline vs m ax"
| "map_entity (SPLINE cps fps ks) m ax = map_spline cps fps ks m ax"
| "map_entity (CIRCLE c r) m ax = map_circle_arc (CIRCLE c r) m ax"
| "map_entity (ARC c r a0 a1) m ax = map_circle_arc (ARC c r a0 a1) m ax"
| "map_entity (POINT p) m ax = map_point p m ax"
| "map_entity (OTHER name ok p) m ax = map_generic (OTHER name ok p) m ax"

text \<open>
  \<^verbatim>\<open>_apply_mapping\<close>: the exception of an entity is caught and the loop goes on. The
  second component lists, per entity, the exception that was caught.
\<close>

definition apply_mapping_log :: "mapping \<Rightarrow> axis \<Rightarrow> entity list \<Rightarrow> (entity \<times> error option) list" where
  "apply_mapping_log m ax msp = map (\<lambda>e. map_entity e m ax) msp"

definition apply_mapping :: "mapping \<Rightarrow> axis \<Rightarrow> entity list \<Rightarrow> entity list" where
  "apply_mapping m ax msp = map fst (apply_mapping_log m ax msp)"

section \<open>Anchor Re-positioner\<close>

definition anchor_value :: "real \<times> real \<Rightarrow> string \<Rightarrow> real" where
  "anchor_value bounds anchor =
     (let (axis_min, axis_max) = bounds
      in if anchor = ''center'' then (axis_min + axis_max) / 2
         else if anchor \<in> {''end'', ''top'', ''right''} then axis_max
         else axis_min)"

definition transform_all :: "axis \<Rightarrow> real \<Rightarrow> entity list \<Rightarrow> entity list" where
  "transform_all ax d msp =
     map (\<lambda>e. case translate ax d e of Inl err \<Rightarrow> e | Inr e' \<Rightarrow> e') msp"

definition apply_anchor_shift ::
  "entity list \<Rightarrow> Extents \<Rightarrow> mapping \<Rightarrow> axis \<Rightarrow> string \<Rightarrow> error + entity list" where
  "apply_anchor_shift msp ext m ax anchor =
     (let a = anchor_value (get_axis_bounds ext ax) anchor
      in case map_value a m of
           Inl err \<Rightarrow> Inl err
         | Inr new_anchor \<Rightarrow>
             (let shift = a - new_anchor
              in if \<bar>shift\<bar> < 1 / 1000000 then Inr msp
                 else Inr (transform_all ax shift msp)))"

section \<open>The stretch operation\<close>

text \<open>\<^verbatim>\<open>axis.upper()\<close> followed by the membership test in \<^verbatim>\<open>("X", "Y")\<close>.\<close>

definition parse_axis :: "string \<Rightarrow> axis option" where
  "parse_axis a =
     (if a = ''X'' \<or> a = ''x'' then Some X
      else if a = ''Y'' \<or> a = ''y'' then Some Y
      else None)"

text \<open>
  \<^verbatim>\<open>stretch\<close>, up to the saving of the file: the processor it leaves behind. The
  stored extents are not recomputed.
\<close>

definition stretch ::
  "bbox_fn \<Rightarrow> DxfProcessor \<Rightarrow> real \<Rightarrow> string \<Rightarrow> string \<Rightarrow> error + DxfProcessor" where
  "stretch bbox self target_length axis_name anchor =
     (case (last_doc self, extents self) of
        (Some msp, Some ext) \<Rightarrow>
          (case parse_axis axis_name of
             None \<Rightarrow> Inl BadAxis
           | Some ax \<Rightarrow>
               (let size = (if ax = X then size_x ext else size_y ext)
                in if size = 0 then Inl DegenerateAxis
                   else if size = target_length then Inr self
                   else
                     (let (zones, cache) = get_zones bbox msp ext (zone_cache self) ax
                      in case build_mapping zones ext ax target_length of
                           Inl err \<Rightarrow> Inl err
                         | Inr m \<Rightarrow>
                             (case apply_anchor_shift (apply_mapping m ax msp) ext m ax anchor of
                                Inl err \<Rightarrow> Inl err
                              | Inr msp' \<Rightarrow>
                                  Inr (self\<lparr>last_doc := Some msp', zone_cache := cache\<rparr>)))))
      | _ \<Rightarrow> Inl NotLoaded)"

section \<open>Reference Matcher and Width Checker\<close>

text \<open>
  File names are lists of Unicode code points. The regular expressions of
  \<^verbatim>\<open>_extract_korpus_number\<close> are written out as the searches they perform, with
  \<^verbatim>\<open>\d\<close> read as the ASCII digits and \<^verbatim>\<open>re.IGNORECASE\<close> as the lower and upper
  case of each Cyrillic letter.
\<close>

type_synonym ustring = "nat list"











record ArcInfo =
  radius :: real
  arc_length :: real
  center :: "real \<times> real"
  start_angle :: real
  end_angle :: real

record BaseInfo =
  file_path :: ustring
  korpus_number :: ustring
  arc1 :: ArcInfo
  arc2 :: ArcInfo



record RadiusFileInfo =
  rf_file_path :: ustring
  rf_korpus_number :: ustring
  is_outer :: bool
  current_length :: real
  target_length :: real
  base_info :: BaseInfo
  current_width :: real




















section \<open>Notions of the specification\<close>

text \<open>
  The invariant of a zone sequence: contiguous from \<open>a\<close> to \<open>b\<close>, every zone running
  forwards.
\<close>

fun zone_chain :: "real \<Rightarrow> real \<Rightarrow> 'a Zone_scheme list \<Rightarrow> bool" where
  "zone_chain a b [] = (a = b)"
| "zone_chain a b (z # zs) = (start_old z = a \<and> a \<le> end_old z \<and> zone_chain (end_old z) b zs)"

text \<open>Intervals that are non-empty, in ascending order and apart from each other.\<close>

definition separated :: "(real \<times> real) list \<Rightarrow> bool" where
  "separated xs = (sorted_wrt (\<lambda>p q. snd p < fst q) xs \<and> (\<forall>p\<in>set xs. fst p < snd p))"

text \<open>The last loop of \<^verbatim>\<open>_get_zones\<close> and its fallback, as a function of the merged intervals.\<close>

definition zones_of :: "(real \<times> real) list \<Rightarrow> real \<Rightarrow> real \<Rightarrow> Zone list" where
  "zones_of merged a b =
     (let (zs, cursor) = walk_zones a merged;
          zones = zs @ (if cursor < b
                        then [\<lparr>start_old = cursor, end_old = b, zone_type = STRETCH\<rparr>] else [])
      in if zones = [] then [\<lparr>start_old = a, end_old = b, zone_type = STRETCH\<rparr>] else zones)"

text \<open>No two adjacent zones share a tag.\<close>

fun alternating :: "Zone list \<Rightarrow> bool" where
  "alternating (z1 # z2 # zs) = (zone_type z1 \<noteq> zone_type z2 \<and> alternating (z2 # zs))"
| "alternating _ = True"

text \<open>The new length the loop of \<^verbatim>\<open>_build_mapping\<close> gives to a zone.\<close>

definition new_len :: "real \<Rightarrow> real \<Rightarrow> Zone \<Rightarrow> real" where
  "new_len delta s_total z =
     (if zone_type z = STRETCH \<and> s_total > 0
      then length_zone z + delta * (length_zone z / s_total) else length_zone z)"

text \<open>The coordinate of a point on an axis, and the two that are not on it.\<close>

fun coord :: "axis \<Rightarrow> vec3 \<Rightarrow> real" where
  "coord ax (x, y, z) = (if ax = X then x else y)"

fun off_axis :: "axis \<Rightarrow> vec3 \<Rightarrow> real \<times> real" where
  "off_axis ax (x, y, z) = (if ax = X then (y, z) else (x, z))"




text \<open>
  Exact bounding boxes, for the entity kinds whose extent is plain geometry: a line, a
  point and a circle. \<open>hull_bbox\<close> is the bounding-box routine restricted to these.
\<close>

definition circle_extents :: "vec3 \<Rightarrow> real \<Rightarrow> Extents" where
  "circle_extents c r =
     (case c of (x, y, z) \<Rightarrow>
        \<lparr>extmin_x = x - r, extmax_x = x + r, extmin_y = y - r, extmax_y = y + r\<rparr>)"

fun simple_box :: "entity \<Rightarrow> Extents option" where
  "simple_box (LINE (x1, y1, z1) (x2, y2, z2)) =
     Some \<lparr>extmin_x = min x1 x2, extmax_x = max x1 x2, extmin_y = min y1 y2, extmax_y = max y1 y2\<rparr>"
| "simple_box (POINT (x, y, z)) = Some \<lparr>extmin_x = x, extmax_x = x, extmin_y = y, extmax_y = y\<rparr>"
| "simple_box (CIRCLE c r) = Some (circle_extents c r)"
| "simple_box _ = None"

definition join_extents :: "Extents \<Rightarrow> Extents \<Rightarrow> Extents" where
  "join_extents b c =
     \<lparr>extmin_x = min (extmin_x b) (extmin_x c), extmax_x = max (extmax_x b) (extmax_x c),
      extmin_y = min (extmin_y b) (extmin_y c), extmax_y = max (extmax_y b) (extmax_y c)\<rparr>"

fun hull_bbox :: bbox_fn where
  "hull_bbox [] = None"
| "hull_bbox (e # es) =
     (case simple_box e of
        None \<Rightarrow> hull_bbox es
      | Some b \<Rightarrow> (case hull_bbox es of None \<Rightarrow> Some b | Some c \<Rightarrow> Some (join_extents b c)))"








section \<open>Drawings of lines, points and circles\<close>














section \<open>Auxiliary lemmas\<close>

subsection \<open>The mapping builder\<close>

lemma zone_chain_sum: "zone_chain a b zs \<Longrightarrow> sum_list (map length_zone zs) = b - a"
  by (induction zs arbitrary: a) (auto simp: length_zone_def)


lemma build_segments_length: "length (build_segments d t c zs) = length zs"
  by (induction zs arbitrary: c) (auto simp: Let_def)

lemma build_segments_nth:
  "i < length zs \<Longrightarrow>
   start_old (build_segments d t c zs ! i) = start_old (zs ! i) \<and>
   end_old (build_segments d t c zs ! i) = end_old (zs ! i) \<and>
   zone_type (build_segments d t c zs ! i) = zone_type (zs ! i) \<and>
   start_new (build_segments d t c zs ! i) = c + sum_list (map (new_len d t) (take i zs)) \<and>
   end_new (build_segments d t c zs ! i) = c + sum_list (map (new_len d t) (take (Suc i) zs))"
proof (induction zs arbitrary: c i)
  case Nil
  then show ?case by simp
next
  case (Cons z zs)
  show ?case
  proof (cases i)
    case 0
    then show ?thesis by (simp add: Let_def new_len_def)
  next
    case (Suc j)
    with Cons.prems have "j < length zs" by simp
    from Cons.IH[OF this, of "c + new_len d t z"] Suc show ?thesis
      by (simp add: Let_def new_len_def add.assoc)
  qed
qed

lemma sum_new_len:
  "t > 0 \<Longrightarrow>
   sum_list (map (new_len d t) zs) = sum_list (map length_zone zs) + d * (stretch_total zs / t)"
  by (induction zs) (auto simp: new_len_def stretch_total_def field_simps)


lemma build_segments_sum:
  "sum_list (map (\<lambda>s. end_new s - start_new s) (build_segments d t c zs)) =
     sum_list (map (new_len d t) zs)"
  by (induction zs arbitrary: c) (auto simp: Let_def new_len_def)

lemma new_len_sum_chain:
  assumes "zone_chain a b zs" "stretch_total zs > 0"
  shows "sum_list (map (new_len d (stretch_total zs)) zs) = (b - a) + d"
proof -
  have "sum_list (map (new_len d (stretch_total zs)) zs) =
        sum_list (map length_zone zs) + d * (stretch_total zs / stretch_total zs)"
    using assms(2) by (rule sum_new_len)
  with assms show ?thesis by (simp add: zone_chain_sum)
qed


lemma build_mapping_fails_iff:
  "(build_mapping zones ext ax T = Inl NoElasticRegion) =
     (stretch_total zones \<le> 0 \<and>
      \<bar>T - (snd (get_axis_bounds ext ax) - fst (get_axis_bounds ext ax))\<bar> > 1 / 1000000000)"
  by (auto simp: build_mapping_def Let_def split: prod.splits)

lemma build_mapping_total:
  "build_mapping zones ext ax T = Inl NoElasticRegion \<or> (\<exists>m. build_mapping zones ext ax T = Inr m)"
  by (auto simp: build_mapping_def Let_def split: prod.splits)

lemma circle_stretch_fails:
  assumes "bbox [CIRCLE c r] = Some (circle_extents c r)" "r > 0"
     "parse_axis axis_name = Some ax" "\<bar>T - 2 * r\<bar> > 1 / 1000000000"
  shows "\<exists>info self. load bbox [CIRCLE c r] = Inr (info, self) \<and>
           stretch bbox self T axis_name anchor = Inl NoElasticRegion"
proof -
  obtain x y z where c: "c = (x, y, z)" by (cases c) auto
  show ?thesis using assms
    by (cases ax)
       (auto simp: c load_def stretch_def circle_extents_def size_x_def size_y_def
          get_zones_def compute_zones_def get_axis_bounds_def is_fixed_entity_def
          entity_interval_def build_mapping_def stretch_total_def Let_def length_zone_def)
qed

subsection \<open>The coordinate mapper and the transformer\<close>

lemma map_value_total: "m \<noteq> [] \<Longrightarrow> \<exists>w. map_value v m = Inr w"
  by (auto simp: map_value_def split: option.splits)

lemma map_value_empty: "map_value v [] = Inl IndexError"
  by (simp add: map_value_def)

lemma map_value_Inl: "map_value v m = Inl err \<Longrightarrow> m = []"
  using map_value_total[of m v] by auto

lemma map_point3_off:
  "map_point3 p m ax = Inr p' \<Longrightarrow> off_axis ax p' = off_axis ax p"
  by (cases p) (auto split: if_splits sum.splits)

lemma map_point3_Inl: "map_point3 p m ax = Inl err \<Longrightarrow> m = []"
  by (cases p) (auto split: if_splits sum.splits dest: map_value_Inl)












lemma apply_mapping_nth:
  "i < length msp \<Longrightarrow> apply_mapping m ax msp ! i = fst (map_entity (msp ! i) m ax)"
  by (simp add: apply_mapping_def apply_mapping_log_def)

subsection \<open>Shapes are never written\<close>


lemma shift3_off: "off_axis ax (shift3 ax d p) = off_axis ax p"
  by (cases p) auto

lemma shift3_coord: "coord ax (shift3 ax d p) = coord ax p + d"
  by (cases p) auto


lemma transform_all_length: "length (transform_all ax d msp) = length msp"
  by (simp add: transform_all_def)

lemma transform_all_nth:
  "i < length msp \<Longrightarrow>
   transform_all ax d msp ! i = (case translate ax d (msp ! i) of Inl err \<Rightarrow> msp ! i | Inr e' \<Rightarrow> e')"
  by (simp add: transform_all_def)






subsection \<open>The zone segmenter\<close>

lemma fixed_intervals_bounds:
  "p \<in> set (fixed_intervals bbox ax a b es) \<Longrightarrow> a \<le> fst p \<and> fst p < snd p \<and> snd p \<le> b"
  by (induction es) (auto simp: Let_def split: if_splits option.splits)


lemma separated_snoc:
  "separated (xs @ [p]) = (separated xs \<and> fst p < snd p \<and> (\<forall>q\<in>set xs. snd q < fst p))"
  by (auto simp: separated_def sorted_wrt_append)

lemma merge_intervals_separated:
  "separated acc \<Longrightarrow> \<forall>p\<in>set xs. fst p < snd p \<Longrightarrow> separated (merge_intervals acc xs)"
proof (induction xs arbitrary: acc)
  case Nil
  then show ?case by simp
next
  case (Cons x xs)
  obtain s e where x: "x = (s, e)" by (cases x)
  from Cons.prems x have se: "s < e" by auto
  show ?case
  proof (cases "acc = [] \<or> s > snd (last acc)")
    case True
    have "separated (acc @ [(s, e)])"
    proof (cases "acc = []")
      case True
      with se show ?thesis by (simp add: separated_def)
    next
      case False
      then obtain ys l where acc: "acc = ys @ [l]" by (metis rev_exhaust)
      with Cons.prems(1) have "separated ys" "fst l < snd l" "\<forall>q\<in>set ys. snd q < fst l"
        by (simp_all add: separated_snoc)
      moreover from True False acc have "snd l < s" by simp
      ultimately have "\<forall>q\<in>set acc. snd q < s" using acc by fastforce
      with Cons.prems(1) se show ?thesis by (simp add: separated_snoc)
    qed
    with Cons True x show ?thesis by simp
  next
    case False
    then obtain ys l where acc: "acc = ys @ [l]" by (metis rev_exhaust)
    with Cons.prems(1) have "separated ys" "fst l < snd l" "\<forall>q\<in>set ys. snd q < fst l"
      by (simp_all add: separated_snoc)
    then have "separated (ys @ [(fst l, max (snd l) e)])"
      by (simp add: separated_snoc)
    with Cons False x acc show ?thesis by simp
  qed
qed

lemma merge_intervals_bounds:
  "\<forall>p\<in>set acc \<union> set xs. a \<le> fst p \<and> snd p \<le> b \<Longrightarrow>
   \<forall>p\<in>set (merge_intervals acc xs). a \<le> fst p \<and> snd p \<le> b"
proof (induction xs arbitrary: acc)
  case Nil
  then show ?case by simp
next
  case (Cons x xs)
  obtain s e where x: "x = (s, e)" by (cases x)
  show ?case
  proof (cases "acc = [] \<or> s > snd (last acc)")
    case True
    have "\<forall>p\<in>set (acc @ [(s, e)]) \<union> set xs. a \<le> fst p \<and> snd p \<le> b"
      using Cons.prems x by auto
    from Cons.IH[OF this] True x show ?thesis by simp
  next
    case False
    then obtain ys l where acc: "acc = ys @ [l]" by (metis rev_exhaust)
    have "\<forall>p\<in>set (ys @ [(fst l, max (snd l) e)]) \<union> set xs. a \<le> fst p \<and> snd p \<le> b"
      using Cons.prems x acc by auto
    from Cons.IH[OF this] False x acc show ?thesis by simp
  qed
qed

lemma zone_chain_append:
  "zone_chain a b (xs @ ys) = (\<exists>c. zone_chain a c xs \<and> zone_chain c b ys)"
  by (induction xs arbitrary: a) auto

lemma alternating_Cons:
  "alternating (z # zs) = ((zs \<noteq> [] \<longrightarrow> zone_type z \<noteq> zone_type (hd zs)) \<and> alternating zs)"
  by (cases zs) auto

lemma alternating_snoc:
  "alternating (zs @ [z]) = ((zs \<noteq> [] \<longrightarrow> zone_type (last zs) \<noteq> zone_type z) \<and> alternating zs)"
  by (induction zs rule: alternating.induct) (auto simp: alternating_Cons)

lemma walk_zones_props:
  assumes "separated xs" "\<forall>p\<in>set xs. c \<le> fst p" "walk_zones c xs = (zs, c')"
  shows "zone_chain c c' zs \<and> alternating zs \<and>
         (xs = [] \<longrightarrow> zs = [] \<and> c' = c) \<and>
         (xs \<noteq> [] \<longrightarrow> zs \<noteq> [] \<and> zone_type (last zs) = FIXED \<and> c' = snd (last xs) \<and>
            start_old (hd zs) = c \<and>
            (c < fst (hd xs) \<longrightarrow> zone_type (hd zs) = STRETCH))"
  using assms
proof (induction xs arbitrary: c zs c')
  case Nil
  then show ?case by simp
next
  case (Cons x xs)
  obtain s e where x: "x = (s, e)" by (cases x)
  from Cons.prems have se: "s < e" and cs: "c \<le> s" and sep: "separated xs"
    and gt: "\<forall>p\<in>set xs. e < fst p"
    by (auto simp: separated_def x)
  obtain zs1 c1 where rec: "walk_zones (max c e) xs = (zs1, c1)"
    by (cases "walk_zones (max c e) xs")
  have mx: "max c e = e" using se cs by simp
  have le: "\<forall>p\<in>set xs. max c e \<le> fst p" using gt mx by auto
  note IH = Cons.IH[OF sep le rec, unfolded mx]
  let ?gap = "if s > c then [\<lparr>start_old = c, end_old = s, zone_type = STRETCH\<rparr>] else []"
  let ?fx = "\<lparr>start_old = s, end_old = e, zone_type = FIXED\<rparr>"
  from Cons.prems(3) rec x have zs: "zs = ?gap @ ?fx # zs1" and c': "c' = c1"
    by (auto simp: Let_def)
  have hd1: "zs1 \<noteq> [] \<longrightarrow> zone_type (hd zs1) = STRETCH"
  proof
    assume "zs1 \<noteq> []"
    with IH have ne: "xs \<noteq> []" by auto
    then have "hd xs \<in> set xs" by simp
    with gt have "e < fst (hd xs)" by blast
    with IH ne show "zone_type (hd zs1) = STRETCH" by simp
  qed
  have chain: "zone_chain c c' zs"
    using IH se cs by (auto simp: zs c' zone_chain_append)
  have alt: "alternating zs"
    using IH hd1 by (auto simp: zs alternating_Cons)
  have lastz: "zone_type (last zs) = FIXED"
    using IH by (cases "xs = []") (auto simp: zs)
  have c1: "c' = snd (last (x # xs))"
    using IH by (cases "xs = []") (auto simp: c' x)
  have hdz: "start_old (hd zs) = c \<and> (c < fst (hd (x # xs)) \<longrightarrow> zone_type (hd zs) = STRETCH)"
    using cs by (auto simp: zs x)
  from chain alt lastz c1 hdz show ?case by (simp add: zs)
qed

lemma zones_of_props:
  assumes "separated merged" "\<forall>p\<in>set merged. a \<le> fst p \<and> snd p \<le> b" "a \<le> b"
  shows "zone_chain a b (zones_of merged a b) \<and> alternating (zones_of merged a b) \<and>
         zones_of merged a b \<noteq> [] \<and> start_old (hd (zones_of merged a b)) = a"
proof -
  obtain zs c where w: "walk_zones a merged = (zs, c)" by (cases "walk_zones a merged")
  from assms(2) have "\<forall>p\<in>set merged. a \<le> fst p" by auto
  note P = walk_zones_props[OF assms(1) this w]
  show ?thesis
  proof (cases "merged = []")
    case True
    with P assms(3) w show ?thesis by (auto simp: zones_of_def)
  next
    case False
    with assms(2) have "snd (last merged) \<le> b" by auto
    with P False w show ?thesis
      by (auto simp: zones_of_def zone_chain_append alternating_snoc)
  qed
qed

lemma compute_zones_eq:
  "compute_zones bbox msp ext ax =
     (let (a, b0) = get_axis_bounds ext ax; b = (if b0 < a then a else b0)
      in zones_of (merge_intervals [] (sort_key fst (fixed_intervals bbox ax a b msp))) a b)"
  by (simp add: compute_zones_def zones_of_def Let_def split: prod.splits)

lemma compute_zones_props:
  assumes "get_axis_bounds ext ax = (a, b)"
  shows "zone_chain a (max a b) (compute_zones bbox msp ext ax) \<and>
         alternating (compute_zones bbox msp ext ax) \<and>
         compute_zones bbox msp ext ax \<noteq> [] \<and>
         start_old (hd (compute_zones bbox msp ext ax)) = a"
proof -
  let ?b = "max a b"
  let ?iv = "fixed_intervals bbox ax a ?b msp"
  let ?mg = "merge_intervals [] (sort_key fst ?iv)"
  have eq: "compute_zones bbox msp ext ax = zones_of ?mg a ?b"
    by (cases "b < a") (simp_all add: compute_zones_eq assms max_def)
  have "separated ?mg"
    using fixed_intervals_bounds[of _ bbox ax a ?b msp]
    by (intro merge_intervals_separated) (auto simp: separated_def)
  moreover have "\<forall>p\<in>set ?mg. a \<le> fst p \<and> snd p \<le> ?b"
    using fixed_intervals_bounds[of _ bbox ax a ?b msp]
    by (intro merge_intervals_bounds) auto
  ultimately show ?thesis
    using zones_of_props[of ?mg a ?b] by (simp add: eq)
qed


lemma get_zones_fresh:
  "get_zones bbox msp ext (\<lambda>_. None) ax =
     (compute_zones bbox msp ext ax, (\<lambda>_. None)(ax \<mapsto> compute_zones bbox msp ext ax))"
  by (simp add: get_zones_def Let_def)



subsection \<open>A worked drawing: a line with a circle in the middle\<close>





subsection \<open>The generic fallback\<close>

lemma translate_zero: "translate ax 0 e = Inr e \<or> (\<exists>err. translate ax 0 e = Inl err)"
proof -
  have s3: "shift3 ax 0 p = p" for p by (cases p) auto
  have sv: "shift_vertex ax 0 v = v" for v
    by (cases "vx v"; cases "vy v") (simp_all add: shift_vertex_def)
  then have "map (shift_vertex ax 0) vs = vs" for vs by (induction vs) auto
  moreover have "map (shift3 ax 0) ps = ps" for ps by (induction ps) (auto simp: s3)
  ultimately show ?thesis by (cases e) (auto simp: s3)
qed

lemma build_mapping_hd:
  assumes "build_mapping zones ext ax T = Inr m" "zones \<noteq> []"
  shows "m \<noteq> [] \<and> start_old (hd m) = start_old (hd zones) \<and>
         start_new (hd m) = fst (get_axis_bounds ext ax)"
  using assms
  by (cases zones) (auto simp: build_mapping_def Let_def split: prod.splits if_splits)

lemma map_generic_zero:
  assumes "m \<noteq> []" "start_new (hd m) = start_old (hd m)"
  shows "map_generic e m ax = (e, None)"
  using assms translate_zero[of ax e]
  by (cases m) (auto simp: map_generic_def Let_def split: sum.splits)


subsection \<open>The anchor shift\<close>

lemma apply_anchor_shift_eq:
  assumes "map_value (anchor_value (get_axis_bounds ext ax) anchor) m = Inr na"
  shows "apply_anchor_shift msp ext m ax anchor =
     Inr (if \<bar>anchor_value (get_axis_bounds ext ax) anchor - na\<bar> < 1 / 1000000 then msp
          else transform_all ax (anchor_value (get_axis_bounds ext ax) anchor - na) msp)"
  using assms by (simp add: apply_anchor_shift_def Let_def)

lemma map_point3_coord:
  "map_point3 p m ax = Inr p' \<Longrightarrow> map_value (coord ax p) m = Inr (coord ax p')"
  by (cases p) (auto split: if_splits sum.splits)

lemma point_at_anchor:
  assumes na: "map_value (anchor_value (get_axis_bounds ext ax) anchor) m = Inr na"
      and p: "coord ax p = anchor_value (get_axis_bounds ext ax) anchor"
  shows "\<exists>p'. apply_anchor_shift (apply_mapping m ax [POINT p]) ext m ax anchor = Inr [POINT p'] \<and>
           \<bar>coord ax p' - coord ax p\<bar> < 1 / 1000000 \<and> off_axis ax p' = off_axis ax p"
proof -
  let ?a = "anchor_value (get_axis_bounds ext ax) anchor"
  from na have "m \<noteq> []" by (auto simp: map_value_empty)
  then obtain p1 where p1: "map_point3 p m ax = Inr p1"
    using map_point3_Inl[of p m ax] by (cases "map_point3 p m ax") auto
  from map_point3_coord[OF p1] na p have c1: "coord ax p1 = na" by simp
  from map_point3_off[OF p1] have o1: "off_axis ax p1 = off_axis ax p" .
  have am: "apply_mapping m ax [POINT p] = [POINT p1]"
    by (simp add: apply_mapping_def apply_mapping_log_def map_point_def p1)
  show ?thesis
  proof (cases "\<bar>?a - na\<bar> < 1 / 1000000")
    case True
    with apply_anchor_shift_eq[OF na, of "[POINT p1]"] c1 o1 p show ?thesis
      by (intro exI[of _ p1]) (simp add: am abs_minus_commute)
  next
    case False
    with apply_anchor_shift_eq[OF na, of "[POINT p1]"] c1 o1 p show ?thesis
      by (intro exI[of _ "shift3 ax (?a - na) p1"])
         (simp add: am transform_all_def shift3_coord shift3_off)
  qed
qed


subsection \<open>The reference registry\<close>












subsection \<open>The width check\<close>









subsection \<open>Mapping a value that lies in a zone\<close>







subsection \<open>Every fixed interval lies in a fixed zone\<close>






subsection \<open>The hull of a drawing\<close>








subsection \<open>Mapping a drawing\<close>














section \<open>The claims\<close>

subsection \<open>C3: the lengths of the mapping segments\<close>

text \<open>
  Claim C3. For a zone sequence that is contiguous over the axis range and has a
  positive total stretch length, and for every target length, \<^verbatim>\<open>_build_mapping\<close>
  succeeds with one segment per zone, carrying the zone's old interval and tag. The new
  interval of a fixed zone is as long as the zone; that of a stretch zone has the length
  old length + delta * (zone length / stretch total), where delta is the target length
  minus the current extent. The new intervals are accumulated from left to right: the
  first starts at the axis minimum and each next one starts where the previous one ends.
  The new lengths add up to the target length, exactly and hence within 1e-6. The new
  length of a segment is the signed difference of its new bounds.
\<close>

theorem build_mapping_lengths:
  assumes chain: "zone_chain axis_min axis_max zones"
      and bounds: "get_axis_bounds ext ax = (axis_min, axis_max)"
      and pos: "stretch_total zones > 0"
  shows "\<exists>m. build_mapping zones ext ax target = Inr m \<and> length m = length zones \<and>
     (\<forall>i<length zones.
        start_old (m ! i) = start_old (zones ! i) \<and> end_old (m ! i) = end_old (zones ! i) \<and>
        zone_type (m ! i) = zone_type (zones ! i) \<and>
        end_new (m ! i) - start_new (m ! i) =
          (if zone_type (zones ! i) = FIXED then length_zone (zones ! i)
           else length_zone (zones ! i) +
                (target - (axis_max - axis_min)) *
                  (length_zone (zones ! i) / stretch_total zones)) \<and>
        start_new (m ! i) = (if i = 0 then axis_min else end_new (m ! (i - 1)))) \<and>
     sum_list (map (\<lambda>s. end_new s - start_new s) m) = target \<and>
     \<bar>sum_list (map (\<lambda>s. end_new s - start_new s) m) - target\<bar> \<le> 1 / 1000000"
proof -
  define d where "d = target - (axis_max - axis_min)"
  define t where "t = stretch_total zones"
  define m where "m = build_segments d t axis_min zones"
  have bm: "build_mapping zones ext ax target = Inr m"
    using pos by (simp add: build_mapping_def bounds Let_def m_def d_def t_def)
  have len: "length m = length zones" by (simp add: m_def build_segments_length)
  have nth: "start_old (m ! i) = start_old (zones ! i) \<and> end_old (m ! i) = end_old (zones ! i) \<and>
        zone_type (m ! i) = zone_type (zones ! i) \<and>
        end_new (m ! i) - start_new (m ! i) =
          (if zone_type (zones ! i) = FIXED then length_zone (zones ! i)
           else length_zone (zones ! i) +
                (target - (axis_max - axis_min)) *
                  (length_zone (zones ! i) / stretch_total zones)) \<and>
        start_new (m ! i) = (if i = 0 then axis_min else end_new (m ! (i - 1)))"
    if "i < length zones" for i
  proof -
    note A = build_segments_nth[OF that, of d t axis_min, folded m_def]
    have k: "zone_type (zones ! i) \<noteq> FIXED \<longleftrightarrow> zone_type (zones ! i) = STRETCH"
      by (cases "zone_type (zones ! i)") auto
    have e: "end_new (m ! i) - start_new (m ! i) = new_len d t (zones ! i)"
      using A that by (simp add: take_Suc_conv_app_nth)
    have s: "start_new (m ! i) = (if i = 0 then axis_min else end_new (m ! (i - 1)))"
    proof (cases i)
      case 0
      then show ?thesis using A by simp
    next
      case (Suc j)
      with that have "j < length zones" by simp
      from build_segments_nth[OF this, of d t axis_min, folded m_def] A Suc show ?thesis by simp
    qed
    from A e s k pos show ?thesis by (auto simp: new_len_def t_def d_def)
  qed
  have sum: "sum_list (map (\<lambda>s. end_new s - start_new s) m) = target"
    using new_len_sum_chain[OF chain pos, of d]
    by (simp add: m_def build_segments_sum t_def d_def)
  show ?thesis
  proof (intro exI[of _ m] conjI allI impI)
    show "build_mapping zones ext ax target = Inr m" by (rule bm)
    show "length m = length zones" by (rule len)
    show "sum_list (map (\<lambda>s. end_new s - start_new s) m) = target" by (rule sum)
    show "\<bar>sum_list (map (\<lambda>s. end_new s - start_new s) m) - target\<bar> \<le> 1 / 1000000"
      by (simp add: sum)
  qed (use nth in blast)+
qed

theorem build_mapping_lengths_witness:
  "zone_chain 0 10 [\<lparr>start_old = 0, end_old = 2, zone_type = STRETCH\<rparr>,
                    \<lparr>start_old = 2, end_old = 10, zone_type = FIXED\<rparr>] \<and>
   get_axis_bounds \<lparr>extmin_x = 0, extmax_x = 10, extmin_y = 0, extmax_y = 1\<rparr> X = (0, 10) \<and>
   stretch_total [\<lparr>start_old = 0, end_old = 2, zone_type = STRETCH\<rparr>,
                  \<lparr>start_old = 2, end_old = 10, zone_type = FIXED\<rparr>] > 0 \<and>
   (\<exists>m. build_mapping [\<lparr>start_old = 0, end_old = 2, zone_type = STRETCH\<rparr>,
                        \<lparr>start_old = 2, end_old = 10, zone_type = FIXED\<rparr>]
            \<lparr>extmin_x = 0, extmax_x = 10, extmin_y = 0, extmax_y = 1\<rparr> X 20 = Inr m \<and>
        sum_list (map (\<lambda>s. end_new s - start_new s) m) = 20)"
proof -
  let ?Z = "[\<lparr>start_old = 0, end_old = 2, zone_type = STRETCH\<rparr>,
             \<lparr>start_old = 2, end_old = 10, zone_type = FIXED\<rparr>]"
  let ?E = "\<lparr>extmin_x = 0, extmax_x = 10, extmin_y = 0, extmax_y = 1\<rparr>"
  have h1: "zone_chain 0 10 ?Z" by simp
  have h2: "get_axis_bounds ?E X = (0, 10)" by (simp add: get_axis_bounds_def)
  have h3: "stretch_total ?Z > 0" by (simp add: stretch_total_def length_zone_def)
  from build_mapping_lengths[OF h1 h2 h3, of 20] h1 h2 h3 show ?thesis by blast
qed

subsection \<open>C2: no elastic region\<close>

text \<open>
  Claim C2. \<^verbatim>\<open>_build_mapping\<close> fails with NoElasticRegion exactly when the total
  stretch length is not positive and the target length differs from the current extent
  by more than 1e-9; in every other case it returns a mapping. In particular, for a
  drawing that is one circle of positive radius, whose box spans the whole axis range, a
  stretch to a length that differs from its diameter by more than 1e-9 fails with
  NoElasticRegion.
\<close>

theorem no_elastic_region:
  "(build_mapping zones ext ax T = Inl NoElasticRegion) =
     (stretch_total zones \<le> 0 \<and>
      \<bar>T - (snd (get_axis_bounds ext ax) - fst (get_axis_bounds ext ax))\<bar> > 1 / 1000000000) \<and>
   (build_mapping zones ext ax T = Inl NoElasticRegion \<or>
      (\<exists>m. build_mapping zones ext ax T = Inr m)) \<and>
   (bbox [CIRCLE c r] = Some (circle_extents c r) \<and> r > 0 \<and>
    parse_axis axis_name = Some ax \<and> \<bar>T - 2 * r\<bar> > 1 / 1000000000 \<longrightarrow>
      (\<exists>info self. load bbox [CIRCLE c r] = Inr (info, self) \<and>
         stretch bbox self T axis_name anchor = Inl NoElasticRegion))"
  using build_mapping_fails_iff[of zones ext ax T] build_mapping_total[of zones ext ax T]
    circle_stretch_fails[of bbox c r axis_name ax T anchor]
  by blast

theorem no_elastic_region_witness:
  "hull_bbox [CIRCLE (5, 5, 0) 5] = Some (circle_extents (5, 5, 0) 5) \<and> (5::real) > 0 \<and>
   parse_axis ''X'' = Some X \<and> \<bar>(20::real) - 2 * 5\<bar> > 1 / 1000000000 \<and>
   (\<exists>info self. load hull_bbox [CIRCLE (5, 5, 0) 5] = Inr (info, self) \<and>
      stretch hull_bbox self 20 ''X'' ''start'' = Inl NoElasticRegion)"
proof -
  have h: "hull_bbox [CIRCLE (5, 5, 0) 5] = Some (circle_extents (5, 5, 0) 5) \<and> (5::real) > 0 \<and>
     parse_axis ''X'' = Some X \<and> \<bar>(20::real) - 2 * 5\<bar> > 1 / 1000000000"
    by (simp add: parse_axis_def)
  from no_elastic_region[of "[\<lparr>start_old = 0, end_old = 10, zone_type = FIXED\<rparr>]"
      "circle_extents (5, 5, 0) 5" X 20 hull_bbox "(5, 5, 0)" 5 "''X''" "''start''"] h
  show ?thesis by blast
qed

subsection \<open>C4: the zone sequence\<close>




subsection \<open>C6: fixed features keep their shape\<close>




subsection \<open>C7: a failing entity\<close>





subsection \<open>C10: the fallback for unrecognised kinds\<close>

text \<open>
  Claim C10. For the zones of a drawing that was just loaded and any mapping built from
  them, the first segment starts at the axis minimum in the old and in the new domain. So
  the fallback of \<^verbatim>\<open>_map_generic\<close> translates by zero: \<^verbatim>\<open>_apply_mapping\<close> returns every
  entity of an unrecognised kind exactly as it was, and only the anchor shift that
  follows can move it.
\<close>

theorem generic_fallback_is_identity:
  assumes "load bbox msp = Inr (info, self)"
      and "bbox msp = Some ext"
      and "get_zones bbox msp ext (zone_cache self) ax = (zones, cache)"
      and "build_mapping zones ext ax T = Inr m"
  shows "m \<noteq> [] \<and> start_old (hd m) = fst (get_axis_bounds ext ax) \<and>
         start_new (hd m) = fst (get_axis_bounds ext ax) \<and>
         start_new (hd m) - start_old (hd m) = 0 \<and>
         (\<forall>name ok p. map_entity (OTHER name ok p) m ax = (OTHER name ok p, None)) \<and>
         (\<forall>i<length msp. \<forall>name ok p. msp ! i = OTHER name ok p \<longrightarrow>
            apply_mapping m ax msp ! i = msp ! i)"
proof -
  from assms(1,2) have c: "zone_cache self = (\<lambda>_. None)"
    by (auto simp: load_def)
  with assms(3) have z: "zones = compute_zones bbox msp ext ax"
    by (simp add: get_zones_fresh)
  obtain a b where ab: "get_axis_bounds ext ax = (a, b)" by (cases "get_axis_bounds ext ax")
  from compute_zones_props[OF ab, of bbox msp] z
  have zn: "zones \<noteq> []" "start_old (hd zones) = a" by simp_all
  from build_mapping_hd[OF assms(4) zn(1)] zn(2) ab
  have m: "m \<noteq> []" "start_old (hd m) = a" "start_new (hd m) = a" by simp_all
  then have g: "map_generic e m ax = (e, None)" for e
    by (intro map_generic_zero) simp_all
  have "apply_mapping m ax msp ! i = msp ! i" if "i < length msp" "msp ! i = OTHER name ok p"
    for i name ok p
    using that g[of "OTHER name ok p"] by (simp add: apply_mapping_nth)
  with m g ab show ?thesis by simp
qed

theorem generic_fallback_is_identity_witness:
  "\<exists>self zones cache m.
     load hull_bbox [LINE (0, 0, 0) (10, 0, 0), OTHER ''TEXT'' True (3, 0, 0)] =
       Inr (\<lparr>length_x = 10, width_y = 0, entity_count = 2, min_x = 0, max_x = 10,
              min_y = 0, max_y = 0\<rparr>, self) \<and>
     hull_bbox [LINE (0, 0, 0) (10, 0, 0), OTHER ''TEXT'' True (3, 0, 0)] =
       Some \<lparr>extmin_x = 0, extmax_x = 10, extmin_y = 0, extmax_y = 0\<rparr> \<and>
     get_zones hull_bbox [LINE (0, 0, 0) (10, 0, 0), OTHER ''TEXT'' True (3, 0, 0)]
       \<lparr>extmin_x = 0, extmax_x = 10, extmin_y = 0, extmax_y = 0\<rparr> (zone_cache self) X =
       (zones, cache) \<and>
     build_mapping zones \<lparr>extmin_x = 0, extmax_x = 10, extmin_y = 0, extmax_y = 0\<rparr> X 20 = Inr m \<and>
     apply_mapping m X [LINE (0, 0, 0) (10, 0, 0), OTHER ''TEXT'' True (3, 0, 0)] ! 1 =
       OTHER ''TEXT'' True (3, 0, 0)"
proof -
  let ?D = "[LINE (0, 0, 0) (10, 0, 0), OTHER ''TEXT'' True (3, 0, 0)]"
  let ?E = "\<lparr>extmin_x = 0, extmax_x = 10, extmin_y = 0, extmax_y = 0\<rparr>"
  let ?S = "\<lparr>last_doc = Some ?D, extents = Some ?E, zone_cache = (\<lambda>_. None)\<rparr>"
  let ?Z = "[\<lparr>start_old = 0, end_old = 10, zone_type = STRETCH\<rparr>]"
  let ?M = "[\<lparr>start_old = 0, end_old = 10, zone_type = STRETCH, start_new = 0, end_new = 20\<rparr>]"
  have h2: "hull_bbox ?D = Some ?E" by simp
  have h1: "load hull_bbox ?D =
     Inr (\<lparr>length_x = 10, width_y = 0, entity_count = 2, min_x = 0, max_x = 10,
            min_y = 0, max_y = 0\<rparr>, ?S)"
    by (simp add: load_def h2 size_x_def size_y_def)
  have h3: "get_zones hull_bbox ?D ?E (zone_cache ?S) X = (?Z, (\<lambda>_. None)(X \<mapsto> ?Z))"
    by (simp add: get_zones_def compute_zones_def get_axis_bounds_def is_fixed_entity_def Let_def)
  have h4: "build_mapping ?Z ?E X 20 = Inr ?M"
    by (simp add: build_mapping_def get_axis_bounds_def stretch_total_def length_zone_def Let_def)
  have l: "(1::nat) < length ?D" by simp
  from generic_fallback_is_identity[OF h1 h2 h3 h4] l
  have "\<forall>name ok p. ?D ! 1 = OTHER name ok p \<longrightarrow> apply_mapping ?M X ?D ! 1 = ?D ! 1"
    by blast
  then have "apply_mapping ?M X ?D ! 1 = OTHER ''TEXT'' True (3, 0, 0)" by auto
  with h1 h2 h3 h4 show ?thesis by blast
qed

subsection \<open>C5: the anchor\<close>

text \<open>
  Claim C5, as stated, fails: the corrective translation is not applied to every entity.
  An entity that the library cannot transform stays where it is, although the shift, here
  10 - 20, is not below 1e-6.
\<close>

theorem anchor_shift_skips_entity:
  "map_value (anchor_value (get_axis_bounds
       \<lparr>extmin_x = 0, extmax_x = 10, extmin_y = 0, extmax_y = 1\<rparr> X) ''end'')
     [\<lparr>start_old = 0, end_old = 10, zone_type = STRETCH, start_new = 0, end_new = 20\<rparr>] = Inr 20 \<and>
   anchor_value (get_axis_bounds
       \<lparr>extmin_x = 0, extmax_x = 10, extmin_y = 0, extmax_y = 1\<rparr> X) ''end'' = 10 \<and>
   apply_anchor_shift [OTHER ''TEXT'' False (1, 1, 0), POINT (20, 0, 0)]
     \<lparr>extmin_x = 0, extmax_x = 10, extmin_y = 0, extmax_y = 1\<rparr>
     [\<lparr>start_old = 0, end_old = 10, zone_type = STRETCH, start_new = 0, end_new = 20\<rparr>] X ''end'' =
   Inr [OTHER ''TEXT'' False (1, 1, 0), POINT (10, 0, 0)]"
  by (simp add: apply_anchor_shift_def anchor_value_def get_axis_bounds_def map_value_def eps_def
      length_zone_def length_new_def transform_all_def Let_def)

text \<open>
  Claim C5, amended. The anchor is the axis minimum for start, the midpoint for center and
  the axis maximum for end. For a non-empty mapping, let the shift be the anchor minus the
  mapped anchor. The anchor shift leaves the drawing as it is when the shift is below 1e-6
  in absolute value; otherwise it replaces every entity that the library can transform by
  its translation along the active axis by exactly the shift, and keeps an entity whose
  transformation raises. A point that sits at the anchor ends, after mapping and anchor
  shift, less than 1e-6 away from where it was, its other coordinates unchanged.
\<close>

theorem anchor_shift:
  "anchor_value (lo, hi) ''start'' = lo \<and> anchor_value (lo, hi) ''center'' = (lo + hi) / 2 \<and>
   anchor_value (lo, hi) ''end'' = hi \<and>
   (m \<noteq> [] \<longrightarrow>
     (\<exists>new_anchor shift.
        map_value (anchor_value (get_axis_bounds ext ax) anchor) m = Inr new_anchor \<and>
        shift = anchor_value (get_axis_bounds ext ax) anchor - new_anchor \<and>
        (\<bar>shift\<bar> < 1 / 1000000 \<longrightarrow> apply_anchor_shift msp ext m ax anchor = Inr msp) \<and>
        (\<not> \<bar>shift\<bar> < 1 / 1000000 \<longrightarrow>
           (\<exists>msp'. apply_anchor_shift msp ext m ax anchor = Inr msp' \<and>
              length msp' = length msp \<and>
              (\<forall>i<length msp.
                 msp' ! i = (case translate ax shift (msp ! i) of
                               Inl err \<Rightarrow> msp ! i | Inr e' \<Rightarrow> e')))) \<and>
        (\<forall>p. coord ax p = anchor_value (get_axis_bounds ext ax) anchor \<longrightarrow>
           (\<exists>p'. apply_anchor_shift (apply_mapping m ax [POINT p]) ext m ax anchor =
                    Inr [POINT p'] \<and>
                 \<bar>coord ax p' - coord ax p\<bar> < 1 / 1000000 \<and>
                 off_axis ax p' = off_axis ax p))))"
proof (intro conjI impI)
  assume "m \<noteq> []"
  let ?a = "anchor_value (get_axis_bounds ext ax) anchor"
  from \<open>m \<noteq> []\<close> obtain na where na: "map_value ?a m = Inr na"
    using map_value_total by blast
  show "\<exists>new_anchor shift.
        map_value ?a m = Inr new_anchor \<and> shift = ?a - new_anchor \<and>
        (\<bar>shift\<bar> < 1 / 1000000 \<longrightarrow> apply_anchor_shift msp ext m ax anchor = Inr msp) \<and>
        (\<not> \<bar>shift\<bar> < 1 / 1000000 \<longrightarrow>
           (\<exists>msp'. apply_anchor_shift msp ext m ax anchor = Inr msp' \<and>
              length msp' = length msp \<and>
              (\<forall>i<length msp.
                 msp' ! i = (case translate ax shift (msp ! i) of
                               Inl err \<Rightarrow> msp ! i | Inr e' \<Rightarrow> e')))) \<and>
        (\<forall>p. coord ax p = ?a \<longrightarrow>
           (\<exists>p'. apply_anchor_shift (apply_mapping m ax [POINT p]) ext m ax anchor =
                    Inr [POINT p'] \<and>
                 \<bar>coord ax p' - coord ax p\<bar> < 1 / 1000000 \<and>
                 off_axis ax p' = off_axis ax p))"
  proof (rule exI[of _ na], rule exI[of _ "?a - na"], intro conjI impI allI)
    show "map_value ?a m = Inr na" by (rule na)
    show "?a - na = ?a - na" ..
    show "apply_anchor_shift msp ext m ax anchor = Inr msp" if "\<bar>?a - na\<bar> < 1 / 1000000"
      using that by (simp add: apply_anchor_shift_eq[OF na])
    show "\<exists>msp'. apply_anchor_shift msp ext m ax anchor = Inr msp' \<and>
              length msp' = length msp \<and>
              (\<forall>i<length msp.
                 msp' ! i = (case translate ax (?a - na) (msp ! i) of
                               Inl err \<Rightarrow> msp ! i | Inr e' \<Rightarrow> e'))"
      if "\<not> \<bar>?a - na\<bar> < 1 / 1000000"
      using that
      by (intro exI[of _ "transform_all ax (?a - na) msp"])
         (simp add: apply_anchor_shift_eq[OF na] transform_all_length transform_all_nth)
    show "\<exists>p'. apply_anchor_shift (apply_mapping m ax [POINT p]) ext m ax anchor =
                    Inr [POINT p'] \<and>
                 \<bar>coord ax p' - coord ax p\<bar> < 1 / 1000000 \<and>
                 off_axis ax p' = off_axis ax p"
      if "coord ax p = ?a" for p
      using point_at_anchor[OF na that] .
  qed
qed (simp_all add: anchor_value_def)

theorem anchor_shift_witness:
  "[\<lparr>start_old = 0, end_old = 10, zone_type = STRETCH, start_new = 0, end_new = 20\<rparr>] \<noteq> [] \<and>
   coord X (10, 3, 0) = anchor_value (get_axis_bounds
       \<lparr>extmin_x = 0, extmax_x = 10, extmin_y = 0, extmax_y = 1\<rparr> X) ''end'' \<and>
   (\<exists>p'. apply_anchor_shift
            (apply_mapping
               [\<lparr>start_old = 0, end_old = 10, zone_type = STRETCH, start_new = 0, end_new = 20\<rparr>]
               X [POINT (10, 3, 0)])
            \<lparr>extmin_x = 0, extmax_x = 10, extmin_y = 0, extmax_y = 1\<rparr>
            [\<lparr>start_old = 0, end_old = 10, zone_type = STRETCH, start_new = 0, end_new = 20\<rparr>]
            X ''end'' = Inr [POINT p'] \<and>
          \<bar>coord X p' - coord X (10, 3, 0)\<bar> < 1 / 1000000)"
proof -
  let ?M = "[\<lparr>start_old = 0, end_old = 10, zone_type = STRETCH, start_new = 0, end_new = 20\<rparr>]"
  let ?E = "\<lparr>extmin_x = 0, extmax_x = 10, extmin_y = 0, extmax_y = 1\<rparr>"
  have h1: "?M \<noteq> []" by simp
  have h2: "coord X (10, 3, 0) = anchor_value (get_axis_bounds ?E X) ''end''"
    by (simp add: anchor_value_def get_axis_bounds_def)
  from anchor_shift[of 0 10 ?M ?E X "''end''" "[]"] h1 h2 show ?thesis by blast
qed

subsection \<open>C8: matching a work drawing\<close>



subsection \<open>C9: the width check\<close>



subsection \<open>C1: the extent after a stretch\<close>





text \<open>
  The tolerance window matters. Here the target length is above the total fixed length,
  but a point lies 1e-9 inside the fixed zone of a circle: it is mapped with the slope of
  the stretch zone before it, which is 1e9, and lands beyond the circle. The new extent
  is 1000001 instead of 1000000.5.
\<close>

lemma tolerance_window_example:
  "stretch hull_bbox
     \<lparr>last_doc = Some [LINE (0, 0, 0) (1 / 1000, 0, 0), CIRCLE (251 / 1000, 0, 0) (1 / 4),
                       POINT (1000001 / 1000000000, 0, 0)],
      extents = Some \<lparr>extmin_x = 0, extmax_x = 501 / 1000, extmin_y = - (1 / 4), extmax_y = 1 / 4\<rparr>,
      zone_cache = (\<lambda>_. None)\<rparr> (2000001 / 2) ''X'' ''start'' =
   Inr \<lparr>last_doc = Some [LINE (0, 0, 0) (1000000, 0, 0), CIRCLE (4000001 / 4, 0, 0) (1 / 4),
                          POINT (1000001, 0, 0)],
        extents = Some \<lparr>extmin_x = 0, extmax_x = 501 / 1000, extmin_y = - (1 / 4), extmax_y = 1 / 4\<rparr>,
        zone_cache = (\<lambda>_. None)(X \<mapsto>
          [\<lparr>start_old = 0, end_old = 1 / 1000, zone_type = STRETCH\<rparr>,
           \<lparr>start_old = 1 / 1000, end_old = 501 / 1000, zone_type = FIXED\<rparr>])\<rparr> \<and>
   hull_bbox [LINE (0, 0, 0) (1000000, 0, 0), CIRCLE (4000001 / 4, 0, 0) (1 / 4),
              POINT (1000001, 0, 0)] =
     Some \<lparr>extmin_x = 0, extmax_x = 1000001, extmin_y = - (1 / 4), extmax_y = 1 / 4\<rparr>"
proof -
  let ?D = "[LINE (0, 0, 0) (1 / 1000, 0, 0), CIRCLE (251 / 1000, 0, 0) (1 / 4),
             POINT (1000001 / 1000000000, 0, 0)]"
  let ?E = "\<lparr>extmin_x = 0, extmax_x = 501 / 1000, extmin_y = - (1 / 4), extmax_y = 1 / 4\<rparr>"
  let ?Z = "[\<lparr>start_old = 0, end_old = 1 / 1000, zone_type = STRETCH\<rparr>,
             \<lparr>start_old = 1 / 1000, end_old = 501 / 1000, zone_type = FIXED\<rparr>]"
  have z: "compute_zones hull_bbox ?D ?E X = ?Z"
    by (simp add: compute_zones_def get_axis_bounds_def is_fixed_entity_def entity_interval_def
        circle_extents_def Let_def)
  have m: "build_mapping ?Z ?E X (2000001 / 2) =
     Inr [\<lparr>start_old = 0, end_old = 1 / 1000, zone_type = STRETCH, start_new = 0,
            end_new = 1000000\<rparr>,
          \<lparr>start_old = 1 / 1000, end_old = 501 / 1000, zone_type = FIXED, start_new = 1000000,
            end_new = 2000001 / 2\<rparr>]"
    by (simp add: build_mapping_def get_axis_bounds_def stretch_total_def length_zone_def Let_def)
  have s: "stretch hull_bbox \<lparr>last_doc = Some ?D, extents = Some ?E, zone_cache = (\<lambda>_. None)\<rparr>
       (2000001 / 2) ''X'' ''start'' =
     Inr \<lparr>last_doc = Some [LINE (0, 0, 0) (1000000, 0, 0), CIRCLE (4000001 / 4, 0, 0) (1 / 4),
                          POINT (1000001, 0, 0)],
          extents = Some ?E, zone_cache = (\<lambda>_. None)(X \<mapsto> ?Z)\<rparr>"
    by (simp add: stretch_def parse_axis_def size_x_def get_zones_def z m
        get_axis_bounds_def length_zone_def Let_def apply_mapping_def apply_mapping_log_def
        map_line_def map_circle_arc_def map_point_def map_value_def eps_def length_new_def
        apply_anchor_shift_def anchor_value_def)
  have h: "hull_bbox [LINE (0, 0, 0) (1000000, 0, 0), CIRCLE (4000001 / 4, 0, 0) (1 / 4),
              POINT (1000001, 0, 0)] =
     Some \<lparr>extmin_x = 0, extmax_x = 1000001, extmin_y = - (1 / 4), extmax_y = 1 / 4\<rparr>"
    by (simp add: circle_extents_def join_extents_def)
  from s h show ?thesis by blast
qed

end
